theory Spec2Isabelle
  imports Main "HOL-Library.Option_ord"
begin

section \<open>Data model (shared/schema.ts)\<close>

text \<open>
  The tables of the relational schema, one record per row type. Conventions of the
  embedding:
  \<^item> a \<^verbatim>\<open>timestamp\<close> is an integer count of milliseconds (JavaScript's
    \<^verbatim>\<open>Date.getTime()\<close>); a day is 86400000 of them (the server runs in UTC, so a
    calendar day and 24 hours coincide);
  \<^item> a \<^verbatim>\<open>decimal(10, 2)\<close> amount is an integer count of cents. The handlers go
    through \<^verbatim>\<open>parseFloat\<close> and back through \<^verbatim>\<open>toString\<close> before the column rounds
    to two places again; for amounts a ten-digit column can hold, the binary rounding
    error stays far below half a cent, so the stored result is the exact one;
  \<^item> a nullable column is an \<open>option\<close>, \<open>None\<close> being SQL NULL;
  \<^item> a table is the list of its rows, and a \<^verbatim>\<open>serial\<close> column draws from a counter
    kept beside the tables;
  \<^item> every clock reading is a parameter of its own: each evaluation of
    \<^verbatim>\<open>new Date()\<close> in the server and each SQL statement's \<^verbatim>\<open>now()\<close> is passed to
    the function that makes it, in the order in which they are made;
  \<^item> an id in a \<^verbatim>\<open>WHERE\<close> clause (a path parameter, the \<^verbatim>\<open>bookId\<close> of a
    reservation request) is a value of the key's type.
\<close>

type_synonym timestamp = int
type_synonym decimal = int

definition days :: "int \<Rightarrow> int" where
  "days n = n * 86400000"

record user =
  user_id :: string
  user_email :: "string option"
  user_firstName :: "string option"
  user_lastName :: "string option"
  user_profileImageUrl :: "string option"
  user_role :: string
  user_stripeCustomerId :: "string option"
  user_stripeSubscriptionId :: "string option"
  user_outstandingFines :: "decimal option"
  user_createdAt :: "timestamp option"
  user_updatedAt :: "timestamp option"

record book =
  book_id :: int
  book_title :: string
  book_author :: string
  book_isbn :: "string option"
  book_genre :: string
  book_description :: "string option"
  book_coverUrl :: "string option"
  book_publicationYear :: "int option"
  book_totalCopies :: int
  book_availableCopies :: int
  book_createdAt :: "timestamp option"
  book_updatedAt :: "timestamp option"

record reservation =
  reservation_id :: int
  reservation_userId :: string
  reservation_bookId :: int
  reservation_status :: string
  reservation_reservedAt :: "timestamp option"
  reservation_dueDate :: timestamp
  reservation_completedAt :: "timestamp option"

record fine =
  fine_id :: int
  fine_userId :: string
  fine_reservationId :: "int option"
  fine_amount :: decimal
  fine_reason :: string
  fine_status :: string
  fine_createdAt :: "timestamp option"
  fine_paidAt :: "timestamp option"

record payment =
  payment_id :: int
  payment_userId :: string
  payment_fineId :: "int option"
  payment_amount :: decimal
  payment_stripePaymentIntentId :: "string option"
  payment_status :: string
  payment_createdAt :: "timestamp option"
  payment_completedAt :: "timestamp option"

text \<open>The database: the five tables and the counters of the \<^verbatim>\<open>serial\<close> keys.\<close>

record db =
  users :: "user list"
  books :: "book list"
  reservations :: "reservation list"
  fines :: "fine list"
  payments :: "payment list"
  books_id_seq :: int
  reservations_id_seq :: int
  fines_id_seq :: int
  payments_id_seq :: int

section \<open>What the query builder and the database refuse\<close>

text \<open>
  A statement can fail in the query builder or in PostgreSQL; the call then throws and
  the handler's \<^verbatim>\<open>catch\<close> answers 500. The failures below are the ones that the
  statements of the modelled handlers can meet. A failed statement writes no row; an
  \<^verbatim>\<open>INSERT\<close> that fails on a constraint has still drawn its key from the sequence.
  A lost connection is outside the model.
\<close>

datatype db_error =
    TypeError
  | NoValuesToSet
  | NotNullViolation
  | ForeignKeyViolation
  | UniqueViolation
  | NumericValueOutOfRange
  | StringDataRightTruncation
  | CharacterNotInRepertoire

text \<open>An \<^verbatim>\<open>integer\<close> column holds 32 bits.\<close>

definition int4 :: "int \<Rightarrow> bool" where
  "int4 n = (- 2147483648 \<le> n \<and> n \<le> 2147483647)"

text \<open>A text value must not contain the character NUL.\<close>

definition pg_text :: "string \<Rightarrow> bool" where
  "pg_text s = (CHR 0x00 \<notin> set s)"

text \<open>
  Assignment to \<^verbatim>\<open>varchar(13)\<close>: a longer string is refused, unless all its
  characters beyond the 13th are spaces, which are cut off.
\<close>

definition varchar13 :: "string \<Rightarrow> string option" where
  "varchar13 s =
     (if length s \<le> 13 then Some s
      else if list_all (\<lambda>c. c = CHR '' '') (drop 13 s) then Some (take 13 s)
      else None)"

text \<open>
  A field of a \<^verbatim>\<open>Partial<Row>\<close> as it is at run time: \<open>None\<close> when the object has
  no such key, \<open>Some None\<close> for \<^verbatim>\<open>null\<close>, \<open>Some (Some v)\<close> for a value. A body
  that names the key column \<^verbatim>\<open>id\<close>, or that gives a column a value of another
  JSON type than the column's, is outside the model.

  The value of a timestamp field is a \<^verbatim>\<open>Date\<close> when the server made it. JSON has
  no dates: a timestamp that comes from a request body is a string (or a number), on
  which the column's \<^verbatim>\<open>value.toISOString()\<close> throws a \<^verbatim>\<open>TypeError\<close>.
\<close>

datatype js_time = Date timestamp | NotADate

definition given :: "('a \<Rightarrow> bool) \<Rightarrow> 'a option option \<Rightarrow> bool" where
  "given P v = (case v of Some (Some x) \<Rightarrow> P x | _ \<Rightarrow> True)"

definition is_null :: "'a option option \<Rightarrow> bool" where
  "is_null v = (v = Some None)"

definition not_a_date :: "js_time option option \<Rightarrow> bool" where
  "not_a_date v = (v = Some (Some NotADate))"

text \<open>The value of a column after \<^verbatim>\<open>.set(updates)\<close>, once the statement is accepted.\<close>

definition set_required :: "'a option option \<Rightarrow> 'a \<Rightarrow> 'a" where
  "set_required upd old = (case upd of Some (Some v) \<Rightarrow> v | _ \<Rightarrow> old)"

definition set_nullable :: "'a option option \<Rightarrow> 'a option \<Rightarrow> 'a option" where
  "set_nullable upd old = (case upd of None \<Rightarrow> old | Some v \<Rightarrow> v)"

definition set_required_time :: "js_time option option \<Rightarrow> timestamp \<Rightarrow> timestamp" where
  "set_required_time upd old = (case upd of Some (Some (Date t)) \<Rightarrow> t | _ \<Rightarrow> old)"

definition set_nullable_time ::
  "js_time option option \<Rightarrow> timestamp option \<Rightarrow> timestamp option" where
  "set_nullable_time upd old =
     (case upd of
        None \<Rightarrow> old
      | Some None \<Rightarrow> None
      | Some (Some (Date t)) \<Rightarrow> Some t
      | Some (Some NotADate) \<Rightarrow> old)"

section \<open>Storage layer (server/storage.ts, class DatabaseStorage)\<close>

text \<open>
  \<^verbatim>\<open>const [row] = await db.select()...\<close> takes the first row of the result, or
  \<^verbatim>\<open>undefined\<close> when there is none.
\<close>

definition getUser :: "db \<Rightarrow> string \<Rightarrow> user option" where
  "getUser s uid = find (\<lambda>u. user_id u = uid) (users s)"

definition getBook :: "db \<Rightarrow> int \<Rightarrow> book option" where
  "getBook s bid = find (\<lambda>b. book_id b = bid) (books s)"

text \<open>
  \<^verbatim>\<open>getTotalFines\<close>: \<^verbatim>\<open>COALESCE(SUM(amount), 0)\<close> over the fines of the user whose
  status is \<^verbatim>\<open>"unpaid"\<close>.
\<close>

definition getTotalFines :: "db \<Rightarrow> string \<Rightarrow> decimal" where
  "getTotalFines s uid =
     sum_list (map fine_amount
       (filter (\<lambda>f. fine_userId f = uid \<and> fine_status f = ''unpaid'') (fines s)))"

record dashboard_stats =
  stats_activeReservations :: nat
  stats_availableBooks :: int
  stats_dueSoon :: nat
  stats_outstandingFines :: decimal

text \<open>
  \<^verbatim>\<open>getDashboardStats\<close>: two \<^verbatim>\<open>COUNT(*)\<close> queries over the reservations, one
  \<^verbatim>\<open>SUM\<close> over the books (NULL, read as 0, when there is no book), and
  \<^verbatim>\<open>getTotalFines\<close>. SQL's \<^verbatim>\<open>BETWEEN\<close> includes both ends.
\<close>

definition getDashboardStats :: "timestamp \<Rightarrow> db \<Rightarrow> string \<Rightarrow> dashboard_stats" where
  "getDashboardStats now s uid =
     \<lparr> stats_activeReservations =
         length (filter (\<lambda>r. reservation_userId r = uid \<and> reservation_status r = ''active'')
           (reservations s)),
       stats_availableBooks = sum_list (map book_availableCopies (books s)),
       stats_dueSoon =
         length (filter (\<lambda>r. reservation_userId r = uid \<and> reservation_status r = ''active''
                              \<and> now \<le> reservation_dueDate r
                              \<and> reservation_dueDate r \<le> now + days 3)
           (reservations s)),
       stats_outstandingFines = getTotalFines s uid \<rparr>"


text \<open>
  \<^verbatim>\<open>orderBy(desc(col))\<close> on a nullable timestamp: PostgreSQL puts NULL first in a
  descending order. Rows with equal keys keep the order of the table (the engine leaves
  their order open).
\<close>

definition order_desc :: "('a \<Rightarrow> timestamp option) \<Rightarrow> 'a list \<Rightarrow> 'a list" where
  "order_desc col rows = sort_key (\<lambda>r. map_option uminus (col r)) rows"

text \<open>
  A value that an object may leave out: the value it gives, or else the one that stands
  (the stored value in an update that the server builds itself, the default of the
  column in an insert).
\<close>

definition set_col :: "'a option \<Rightarrow> 'a \<Rightarrow> 'a" where
  "set_col upd old = (case upd of None \<Rightarrow> old | Some v \<Rightarrow> v)"

subsection \<open>User operations\<close>

record user_updates =
  upd_user_id :: "string option"
  upd_user_email :: "string option option"
  upd_user_firstName :: "string option option"
  upd_user_lastName :: "string option option"
  upd_user_profileImageUrl :: "string option option"
  upd_user_role :: "string option"
  upd_user_stripeCustomerId :: "string option option"
  upd_user_stripeSubscriptionId :: "string option option"
  upd_user_outstandingFines :: "decimal option option"
  upd_user_createdAt :: "timestamp option option"
  upd_user_updatedAt :: "timestamp option option"

definition no_user_updates :: user_updates where
  "no_user_updates =
     \<lparr> upd_user_id = None, upd_user_email = None, upd_user_firstName = None,
       upd_user_lastName = None, upd_user_profileImageUrl = None, upd_user_role = None,
       upd_user_stripeCustomerId = None, upd_user_stripeSubscriptionId = None,
       upd_user_outstandingFines = None, upd_user_createdAt = None,
       upd_user_updatedAt = None \<rparr>"

definition set_user :: "user_updates \<Rightarrow> user \<Rightarrow> user" where
  "set_user upd u =
     \<lparr> user_id = set_col (upd_user_id upd) (user_id u),
       user_email = set_col (upd_user_email upd) (user_email u),
       user_firstName = set_col (upd_user_firstName upd) (user_firstName u),
       user_lastName = set_col (upd_user_lastName upd) (user_lastName u),
       user_profileImageUrl = set_col (upd_user_profileImageUrl upd) (user_profileImageUrl u),
       user_role = set_col (upd_user_role upd) (user_role u),
       user_stripeCustomerId = set_col (upd_user_stripeCustomerId upd) (user_stripeCustomerId u),
       user_stripeSubscriptionId =
         set_col (upd_user_stripeSubscriptionId upd) (user_stripeSubscriptionId u),
       user_outstandingFines = set_col (upd_user_outstandingFines upd) (user_outstandingFines u),
       user_createdAt = set_col (upd_user_createdAt upd) (user_createdAt u),
       user_updatedAt = set_col (upd_user_updatedAt upd) (user_updatedAt u) \<rparr>"

definition getAllUsers :: "db \<Rightarrow> user list" where
  "getAllUsers s = order_desc user_createdAt (users s)"

text \<open>\<^verbatim>\<open>updateUser\<close>: \<^verbatim>\<open>.set({ ...updates, updatedAt: new Date() })\<close>.\<close>

definition updateUser :: "timestamp \<Rightarrow> string \<Rightarrow> user_updates \<Rightarrow> db \<Rightarrow> user option \<times> db" where
  "updateUser now uid updates s =
     (let upd = updates\<lparr>upd_user_updatedAt := Some (Some now)\<rparr> in
      (map_option (set_user upd) (find (\<lambda>u. user_id u = uid) (users s)),
       s\<lparr>users := map (\<lambda>u. if user_id u = uid then set_user upd u else u) (users s)\<rparr>))"

subsection \<open>Book operations\<close>

text \<open>
  \<^verbatim>\<open>InsertBook\<close>: the insert schema of the books table without \<^verbatim>\<open>id\<close>,
  \<^verbatim>\<open>createdAt\<close> and \<^verbatim>\<open>updatedAt\<close>. The columns that are NOT NULL and have no
  default are required; the others may be left out.
\<close>

record insert_book =
  ins_book_title :: string
  ins_book_author :: string
  ins_book_isbn :: "string option"
  ins_book_genre :: string
  ins_book_description :: "string option"
  ins_book_coverUrl :: "string option"
  ins_book_publicationYear :: "int option"
  ins_book_totalCopies :: "int option"
  ins_book_availableCopies :: "int option"

text \<open>\<^verbatim>\<open>Partial<Book>\<close> at run time.\<close>

record book_updates =
  upd_book_title :: "string option option"
  upd_book_author :: "string option option"
  upd_book_isbn :: "string option option"
  upd_book_genre :: "string option option"
  upd_book_description :: "string option option"
  upd_book_coverUrl :: "string option option"
  upd_book_publicationYear :: "int option option"
  upd_book_totalCopies :: "int option option"
  upd_book_availableCopies :: "int option option"
  upd_book_createdAt :: "js_time option option"
  upd_book_updatedAt :: "js_time option option"

definition no_book_updates :: book_updates where
  "no_book_updates =
     \<lparr> upd_book_title = None, upd_book_author = None,
       upd_book_isbn = None, upd_book_genre = None, upd_book_description = None,
       upd_book_coverUrl = None, upd_book_publicationYear = None,
       upd_book_totalCopies = None, upd_book_availableCopies = None,
       upd_book_createdAt = None, upd_book_updatedAt = None \<rparr>"

definition set_book :: "book_updates \<Rightarrow> book \<Rightarrow> book" where
  "set_book upd b =
     \<lparr> book_id = book_id b,
       book_title = set_required (upd_book_title upd) (book_title b),
       book_author = set_required (upd_book_author upd) (book_author b),
       book_isbn =
         (case upd_book_isbn upd of
            None \<Rightarrow> book_isbn b
          | Some None \<Rightarrow> None
          | Some (Some v) \<Rightarrow> varchar13 v),
       book_genre = set_required (upd_book_genre upd) (book_genre b),
       book_description = set_nullable (upd_book_description upd) (book_description b),
       book_coverUrl = set_nullable (upd_book_coverUrl upd) (book_coverUrl b),
       book_publicationYear =
         set_nullable (upd_book_publicationYear upd) (book_publicationYear b),
       book_totalCopies = set_required (upd_book_totalCopies upd) (book_totalCopies b),
       book_availableCopies =
         set_required (upd_book_availableCopies upd) (book_availableCopies b),
       book_createdAt = set_nullable_time (upd_book_createdAt upd) (book_createdAt b),
       book_updatedAt = set_nullable_time (upd_book_updatedAt upd) (book_updatedAt b) \<rparr>"

text \<open>
  \<^verbatim>\<open>createBook\<close>: the insert fills \<^verbatim>\<open>id\<close> from the sequence, the two copy counts
  with their default 1 and both timestamps with the statement's \<^verbatim>\<open>now()\<close>. The
  values are checked when they are bound; the primary key and the unique \<^verbatim>\<open>isbn\<close>
  when the row is stored.
\<close>

definition createBook :: "timestamp \<Rightarrow> insert_book \<Rightarrow> db \<Rightarrow> (db_error + book) \<times> db" where
  "createBook now b s =
     (if \<not> (given int4 (Some (ins_book_publicationYear b))
             \<and> given int4 (Some (ins_book_totalCopies b))
             \<and> given int4 (Some (ins_book_availableCopies b)))
      then (Inl NumericValueOutOfRange, s)
      else if \<not> (pg_text (ins_book_title b) \<and> pg_text (ins_book_author b)
                  \<and> pg_text (ins_book_genre b)
                  \<and> given pg_text (Some (ins_book_isbn b))
                  \<and> given pg_text (Some (ins_book_description b))
                  \<and> given pg_text (Some (ins_book_coverUrl b)))
      then (Inl CharacterNotInRepertoire, s)
      else if \<not> given (\<lambda>v. varchar13 v \<noteq> None) (Some (ins_book_isbn b))
      then (Inl StringDataRightTruncation, s)
      else
        (let newBook =
           \<lparr> book_id = books_id_seq s,
             book_title = ins_book_title b,
             book_author = ins_book_author b,
             book_isbn = Option.bind (ins_book_isbn b) varchar13,
             book_genre = ins_book_genre b,
             book_description = ins_book_description b,
             book_coverUrl = ins_book_coverUrl b,
             book_publicationYear = ins_book_publicationYear b,
             book_totalCopies = set_col (ins_book_totalCopies b) 1,
             book_availableCopies = set_col (ins_book_availableCopies b) 1,
             book_createdAt = Some now,
             book_updatedAt = Some now \<rparr>
         in if book_id newBook \<in> set (map book_id (books s))
               \<or> (book_isbn newBook \<noteq> None
                   \<and> book_isbn newBook \<in> set (map book_isbn (books s)))
            then (Inl UniqueViolation, s\<lparr>books_id_seq := books_id_seq s + 1\<rparr>)
            else (Inr newBook,
                  s\<lparr>books := books s @ [newBook], books_id_seq := books_id_seq s + 1\<rparr>)))"

text \<open>
  \<^verbatim>\<open>updateBook\<close>: \<^verbatim>\<open>.set({ ...updates, updatedAt: new Date() })\<close>. The query
  builder converts the timestamps, the values are checked when they are bound, and the
  constraints of the table on the rows that the statement changes; with no such row the
  statement succeeds and returns nothing.
\<close>

definition updateBook ::
  "timestamp \<Rightarrow> int \<Rightarrow> book_updates \<Rightarrow> db \<Rightarrow> db_error + (book option \<times> db)" where
  "updateBook now bid updates s =
     (let upd = updates\<lparr>upd_book_updatedAt := Some (Some (Date now))\<rparr> in
      if not_a_date (upd_book_createdAt upd) then Inl TypeError
      else if \<not> (given int4 (upd_book_publicationYear upd)
                  \<and> given int4 (upd_book_totalCopies upd)
                  \<and> given int4 (upd_book_availableCopies upd))
      then Inl NumericValueOutOfRange
      else if \<not> (given pg_text (upd_book_title upd) \<and> given pg_text (upd_book_author upd)
                  \<and> given pg_text (upd_book_isbn upd) \<and> given pg_text (upd_book_genre upd)
                  \<and> given pg_text (upd_book_description upd)
                  \<and> given pg_text (upd_book_coverUrl upd))
      then Inl CharacterNotInRepertoire
      else if \<not> given (\<lambda>v. varchar13 v \<noteq> None) (upd_book_isbn upd)
      then Inl StringDataRightTruncation
      else if find (\<lambda>b. book_id b = bid) (books s) = None then Inr (None, s)
      else if is_null (upd_book_title upd) \<or> is_null (upd_book_author upd)
              \<or> is_null (upd_book_genre upd) \<or> is_null (upd_book_totalCopies upd)
              \<or> is_null (upd_book_availableCopies upd)
      then Inl NotNullViolation
      else if \<not> given (\<lambda>v. \<not> list_ex (\<lambda>x. book_id x \<noteq> bid \<and> book_isbn x = varchar13 v)
                               (books s))
                  (upd_book_isbn upd)
      then Inl UniqueViolation
      else
        Inr (map_option (set_book upd) (find (\<lambda>b. book_id b = bid) (books s)),
             s\<lparr>books := map (\<lambda>b. if book_id b = bid then set_book upd b else b) (books s)\<rparr>))"

text \<open>
  \<^verbatim>\<open>deleteBook\<close>: a book that a reservation refers to cannot be deleted
  (\<^verbatim>\<open>reservations.book_id\<close> references \<^verbatim>\<open>books.id\<close>).
\<close>

definition deleteBook :: "int \<Rightarrow> db \<Rightarrow> db_error + db" where
  "deleteBook bid s =
     (if find (\<lambda>b. book_id b = bid) (books s) \<noteq> None
         \<and> list_ex (\<lambda>r. reservation_bookId r = bid) (reservations s)
      then Inl ForeignKeyViolation
      else Inr (s\<lparr>books := filter (\<lambda>b. book_id b \<noteq> bid) (books s)\<rparr>))"

text \<open>
  \<^verbatim>\<open>updateBookAvailability\<close>:
  \<^verbatim>\<open>.set({ availableCopies: available, updatedAt: new Date() })\<close>. Its one caller
  passes a stored positive count less one, which the column holds.
\<close>

definition updateBookAvailability :: "timestamp \<Rightarrow> int \<Rightarrow> int \<Rightarrow> db \<Rightarrow> book option \<times> db" where
  "updateBookAvailability now bid available s =
     (let upd = (\<lambda>b. b\<lparr>book_availableCopies := available, book_updatedAt := Some now\<rparr>) in
      (map_option upd (find (\<lambda>b. book_id b = bid) (books s)),
       s\<lparr>books := map (\<lambda>b. if book_id b = bid then upd b else b) (books s)\<rparr>))"

subsection \<open>Reservation operations\<close>

text \<open>
  \<^verbatim>\<open>InsertReservation\<close>: the insert schema of the reservations table without
  \<^verbatim>\<open>id\<close> and \<^verbatim>\<open>reservedAt\<close>; \<^verbatim>\<open>status\<close> has a default and
  \<^verbatim>\<open>completedAt\<close> is nullable, so both may be left out.
\<close>

record insert_reservation =
  ins_reservation_userId :: string
  ins_reservation_bookId :: int
  ins_reservation_status :: "string option"
  ins_reservation_dueDate :: timestamp
  ins_reservation_completedAt :: "timestamp option"

text \<open>\<^verbatim>\<open>Partial<Reservation>\<close> at run time.\<close>

record reservation_updates =
  upd_reservation_userId :: "string option option"
  upd_reservation_bookId :: "int option option"
  upd_reservation_status :: "string option option"
  upd_reservation_reservedAt :: "js_time option option"
  upd_reservation_dueDate :: "js_time option option"
  upd_reservation_completedAt :: "js_time option option"

definition no_reservation_updates :: reservation_updates where
  "no_reservation_updates =
     \<lparr> upd_reservation_userId = None, upd_reservation_bookId = None,
       upd_reservation_status = None, upd_reservation_reservedAt = None,
       upd_reservation_dueDate = None, upd_reservation_completedAt = None \<rparr>"

definition set_reservation :: "reservation_updates \<Rightarrow> reservation \<Rightarrow> reservation" where
  "set_reservation upd r =
     \<lparr> reservation_id = reservation_id r,
       reservation_userId = set_required (upd_reservation_userId upd) (reservation_userId r),
       reservation_bookId = set_required (upd_reservation_bookId upd) (reservation_bookId r),
       reservation_status = set_required (upd_reservation_status upd) (reservation_status r),
       reservation_reservedAt =
         set_nullable_time (upd_reservation_reservedAt upd) (reservation_reservedAt r),
       reservation_dueDate =
         set_required_time (upd_reservation_dueDate upd) (reservation_dueDate r),
       reservation_completedAt =
         set_nullable_time (upd_reservation_completedAt upd) (reservation_completedAt r) \<rparr>"

text \<open>
  \<^verbatim>\<open>createReservation\<close>: the insert fills \<^verbatim>\<open>id\<close> from the sequence,
  \<^verbatim>\<open>reservedAt\<close> with the statement's \<^verbatim>\<open>now()\<close> and a missing status with
  \<^verbatim>\<open>"active"\<close>. The row must have a fresh key, and its \<^verbatim>\<open>user_id\<close> and
  \<^verbatim>\<open>book_id\<close> must be keys of the users and of the books.
\<close>

definition createReservation ::
  "timestamp \<Rightarrow> insert_reservation \<Rightarrow> db \<Rightarrow> (db_error + reservation) \<times> db" where
  "createReservation now r s =
     (let newReservation =
        \<lparr> reservation_id = reservations_id_seq s,
          reservation_userId = ins_reservation_userId r,
          reservation_bookId = ins_reservation_bookId r,
          reservation_status = set_col (ins_reservation_status r) ''active'',
          reservation_reservedAt = Some now,
          reservation_dueDate = ins_reservation_dueDate r,
          reservation_completedAt = ins_reservation_completedAt r \<rparr>;
          drawn = s\<lparr>reservations_id_seq := reservations_id_seq s + 1\<rparr>
      in if reservation_id newReservation \<in> set (map reservation_id (reservations s))
         then (Inl UniqueViolation, drawn)
         else if ins_reservation_userId r \<notin> set (map user_id (users s))
                 \<or> ins_reservation_bookId r \<notin> set (map book_id (books s))
         then (Inl ForeignKeyViolation, drawn)
         else (Inr newReservation,
               drawn\<lparr>reservations := reservations s @ [newReservation]\<rparr>))"

text \<open>
  \<^verbatim>\<open>updateReservation\<close>: \<^verbatim>\<open>.set(updates)\<close>, nothing added. The query builder
  refuses an object without a column (\<^verbatim>\<open>No values to set\<close>) and converts the
  timestamps; the values are checked when they are bound, and the constraints of the
  table on the rows that the statement changes; with no such row the statement succeeds
  and returns nothing.
\<close>

definition updateReservation ::
  "int \<Rightarrow> reservation_updates \<Rightarrow> db \<Rightarrow> db_error + (reservation option \<times> db)" where
  "updateReservation rid updates s =
     (if updates = no_reservation_updates then Inl NoValuesToSet
      else if not_a_date (upd_reservation_reservedAt updates)
              \<or> not_a_date (upd_reservation_dueDate updates)
              \<or> not_a_date (upd_reservation_completedAt updates)
      then Inl TypeError
      else if \<not> given int4 (upd_reservation_bookId updates)
      then Inl NumericValueOutOfRange
      else if \<not> (given pg_text (upd_reservation_userId updates)
                  \<and> given pg_text (upd_reservation_status updates))
      then Inl CharacterNotInRepertoire
      else if find (\<lambda>r. reservation_id r = rid) (reservations s) = None then Inr (None, s)
      else if is_null (upd_reservation_userId updates)
              \<or> is_null (upd_reservation_bookId updates)
              \<or> is_null (upd_reservation_status updates)
              \<or> is_null (upd_reservation_dueDate updates)
      then Inl NotNullViolation
      else if \<not> (given (\<lambda>u. u \<in> set (map user_id (users s))) (upd_reservation_userId updates)
                  \<and> given (\<lambda>b. b \<in> set (map book_id (books s)))
                       (upd_reservation_bookId updates))
      then Inl ForeignKeyViolation
      else
        Inr (map_option (set_reservation updates)
               (find (\<lambda>r. reservation_id r = rid) (reservations s)),
             s\<lparr>reservations :=
                 map (\<lambda>r. if reservation_id r = rid then set_reservation updates r else r)
                   (reservations s)\<rparr>))"

text \<open>
  \<^verbatim>\<open>getActiveReservations\<close>: the active reservations, inner-joined with their user
  and their book, latest first.
\<close>

definition getActiveReservations :: "db \<Rightarrow> (reservation \<times> user \<times> book) list" where
  "getActiveReservations s =
     order_desc (\<lambda>(r, u, b). reservation_reservedAt r)
       [(r, u, b). r \<leftarrow> reservations s, u \<leftarrow> users s, b \<leftarrow> books s,
          reservation_userId r = user_id u, reservation_bookId r = book_id b,
          reservation_status r = ''active'']"

subsection \<open>Payment operations\<close>

record payment_updates =
  upd_payment_id :: "int option"
  upd_payment_userId :: "string option"
  upd_payment_fineId :: "int option option"
  upd_payment_amount :: "decimal option"
  upd_payment_stripePaymentIntentId :: "string option option"
  upd_payment_status :: "string option"
  upd_payment_createdAt :: "timestamp option option"
  upd_payment_completedAt :: "timestamp option option"

definition no_payment_updates :: payment_updates where
  "no_payment_updates =
     \<lparr> upd_payment_id = None, upd_payment_userId = None, upd_payment_fineId = None,
       upd_payment_amount = None, upd_payment_stripePaymentIntentId = None,
       upd_payment_status = None, upd_payment_createdAt = None,
       upd_payment_completedAt = None \<rparr>"

definition set_payment :: "payment_updates \<Rightarrow> payment \<Rightarrow> payment" where
  "set_payment upd p =
     \<lparr> payment_id = set_col (upd_payment_id upd) (payment_id p),
       payment_userId = set_col (upd_payment_userId upd) (payment_userId p),
       payment_fineId = set_col (upd_payment_fineId upd) (payment_fineId p),
       payment_amount = set_col (upd_payment_amount upd) (payment_amount p),
       payment_stripePaymentIntentId =
         set_col (upd_payment_stripePaymentIntentId upd) (payment_stripePaymentIntentId p),
       payment_status = set_col (upd_payment_status upd) (payment_status p),
       payment_createdAt = set_col (upd_payment_createdAt upd) (payment_createdAt p),
       payment_completedAt = set_col (upd_payment_completedAt upd) (payment_completedAt p) \<rparr>"

definition updatePayment :: "int \<Rightarrow> payment_updates \<Rightarrow> db \<Rightarrow> payment option \<times> db" where
  "updatePayment pid updates s =
     (map_option (set_payment updates) (find (\<lambda>p. payment_id p = pid) (payments s)),
      s\<lparr>payments :=
          map (\<lambda>p. if payment_id p = pid then set_payment updates p else p) (payments s)\<rparr>)"

definition getUserPayments :: "db \<Rightarrow> string \<Rightarrow> payment list" where
  "getUserPayments s uid =
     order_desc payment_createdAt (filter (\<lambda>p. payment_userId p = uid) (payments s))"

section \<open>Request handlers (server/routes.ts)\<close>

text \<open>
  A handler is a function of the request and the database to the response and the
  database it leaves. Every handler below is registered behind the authentication
  middleware and runs only on a request it let through; \<open>sub\<close> is
  \<^verbatim>\<open>req.user.claims.sub\<close>, the identity of the caller. A storage call that throws
  is caught by the handler, which answers 500.
\<close>

datatype body =
    Message string
  | InvalidBookData
  | BookJson "book option"
  | ReservationJson "reservation option"
  | UsersJson "user list"
  | ActiveReservationsJson "(reservation \<times> user \<times> book) list"
  | StatsJson dashboard_stats
  | SuccessJson
  | NoContent

type_synonym response = "nat \<times> body"

text \<open>
  A JSON value in the body of \<^verbatim>\<open>POST /api/books\<close>. A number is an integer here;
  \<open>JOther\<close> stands for the values that no column accepts: a number with a
  fraction, an array, an object.
\<close>

datatype json = JNull | JBool bool | JNum int | JStr string | JOther

record book_body =
  body_title :: "json option"
  body_author :: "json option"
  body_isbn :: "json option"
  body_genre :: "json option"
  body_description :: "json option"
  body_coverUrl :: "json option"
  body_publicationYear :: "json option"
  body_totalCopies :: "json option"
  body_availableCopies :: "json option"

text \<open>
  The field schemas that \<^verbatim>\<open>createInsertSchema(books)\<close> derives from the columns;
  \<open>None\<close> is a validation issue. A NOT NULL \<^verbatim>\<open>text\<close> column without default
  requires a string; a nullable column takes its type, \<^verbatim>\<open>null\<close> or nothing; a
  column with a default takes its type or nothing; \<^verbatim>\<open>varchar(13)\<close> takes at most
  13 characters and \<^verbatim>\<open>integer\<close> an integer of 32 bits.
\<close>

definition zod_string :: "json option \<Rightarrow> string option" where
  "zod_string v = (case v of Some (JStr s) \<Rightarrow> Some s | _ \<Rightarrow> None)"

definition zod_nullable_string :: "json option \<Rightarrow> string option option" where
  "zod_nullable_string v =
     (case v of
        None \<Rightarrow> Some None
      | Some JNull \<Rightarrow> Some None
      | Some (JStr s) \<Rightarrow> Some (Some s)
      | _ \<Rightarrow> None)"

definition zod_nullable_varchar13 :: "json option \<Rightarrow> string option option" where
  "zod_nullable_varchar13 v =
     (case v of
        None \<Rightarrow> Some None
      | Some JNull \<Rightarrow> Some None
      | Some (JStr s) \<Rightarrow> (if length s \<le> 13 then Some (Some s) else None)
      | _ \<Rightarrow> None)"

definition zod_nullable_int4 :: "json option \<Rightarrow> int option option" where
  "zod_nullable_int4 v =
     (case v of
        None \<Rightarrow> Some None
      | Some JNull \<Rightarrow> Some None
      | Some (JNum n) \<Rightarrow> (if int4 n then Some (Some n) else None)
      | _ \<Rightarrow> None)"

definition zod_optional_int4 :: "json option \<Rightarrow> int option option" where
  "zod_optional_int4 v =
     (case v of
        None \<Rightarrow> Some None
      | Some (JNum n) \<Rightarrow> (if int4 n then Some (Some n) else None)
      | _ \<Rightarrow> None)"

text \<open>
  \<^verbatim>\<open>insertBookSchema.parse\<close> raises a \<^verbatim>\<open>ZodError\<close> (here \<open>None\<close>) when a field
  has an issue.
\<close>

definition insertBookSchema_parse :: "book_body \<Rightarrow> insert_book option" where
  "insertBookSchema_parse b =
     (case (zod_string (body_title b), zod_string (body_author b),
            zod_nullable_varchar13 (body_isbn b), zod_string (body_genre b),
            zod_nullable_string (body_description b), zod_nullable_string (body_coverUrl b),
            zod_nullable_int4 (body_publicationYear b), zod_optional_int4 (body_totalCopies b),
            zod_optional_int4 (body_availableCopies b)) of
        (Some title, Some author, Some isbn, Some genre, Some description, Some coverUrl,
         Some publicationYear, Some totalCopies, Some availableCopies) \<Rightarrow>
          Some \<lparr> ins_book_title = title, ins_book_author = author,
                 ins_book_isbn = isbn, ins_book_genre = genre,
                 ins_book_description = description,
                 ins_book_coverUrl = coverUrl,
                 ins_book_publicationYear = publicationYear,
                 ins_book_totalCopies = totalCopies,
                 ins_book_availableCopies = availableCopies \<rparr>
      | _ \<Rightarrow> None)"

text \<open>
  The admin gate \<^verbatim>\<open>user?.role !== 'admin'\<close>: it also holds when the caller has no
  user row.
\<close>

definition not_admin :: "user option \<Rightarrow> bool" where
  "not_admin user = (map_option user_role user \<noteq> Some ''admin'')"

definition admin_access_required :: response where
  "admin_access_required = (403, Message ''Admin access required'')"

subsection \<open>Book routes\<close>

definition post_api_books :: "timestamp \<Rightarrow> string \<Rightarrow> book_body \<Rightarrow> db \<Rightarrow> response \<times> db" where
  "post_api_books now sub req_body s =
     (if not_admin (getUser s sub) then (admin_access_required, s)
      else case insertBookSchema_parse req_body of
             None \<Rightarrow> ((400, InvalidBookData), s)
           | Some bookData \<Rightarrow>
               (case createBook now bookData s of
                  (Inl error, s') \<Rightarrow> ((500, Message ''Failed to create book''), s')
                | (Inr book, s') \<Rightarrow> ((201, BookJson (Some book)), s')))"

definition put_api_books_id ::
  "timestamp \<Rightarrow> string \<Rightarrow> int \<Rightarrow> book_updates \<Rightarrow> db \<Rightarrow> response \<times> db" where
  "put_api_books_id now sub bid req_body s =
     (if not_admin (getUser s sub) then (admin_access_required, s)
      else case updateBook now bid req_body s of
             Inl error \<Rightarrow> ((500, Message ''Failed to update book''), s)
           | Inr (book, s') \<Rightarrow> ((200, BookJson book), s'))"

definition delete_api_books_id :: "string \<Rightarrow> int \<Rightarrow> db \<Rightarrow> response \<times> db" where
  "delete_api_books_id sub bid s =
     (if not_admin (getUser s sub) then (admin_access_required, s)
      else case deleteBook bid s of
             Inl error \<Rightarrow> ((500, Message ''Failed to delete book''), s)
           | Inr s' \<Rightarrow> ((204, NoContent), s'))"

subsection \<open>Reservation routes\<close>

text \<open>
  \<^verbatim>\<open>POST /api/reservations\<close> reads three clocks: \<open>now\<close> is the handler's
  \<^verbatim>\<open>new Date()\<close>, from which it computes the due date; \<open>inserted\<close> is the
  \<^verbatim>\<open>now()\<close> of the INSERT, which fills \<^verbatim>\<open>reserved_at\<close>; \<open>updated\<close> is the
  \<^verbatim>\<open>new Date()\<close> of \<^verbatim>\<open>updateBookAvailability\<close>.
\<close>

definition post_api_reservations ::
  "timestamp \<Rightarrow> timestamp \<Rightarrow> timestamp \<Rightarrow> string \<Rightarrow> int \<Rightarrow> db \<Rightarrow> response \<times> db" where
  "post_api_reservations now inserted updated sub bookId s =
     (case getBook s bookId of
        None \<Rightarrow> ((400, Message ''Book is not available''), s)
      | Some book \<Rightarrow>
          if book_availableCopies book \<le> 0 then ((400, Message ''Book is not available''), s)
          else
            (let dueDate = now + days 14;
                 reservationData =
                   \<lparr> ins_reservation_userId = sub,
                     ins_reservation_bookId = bookId,
                     ins_reservation_status = Some ''active'',
                     ins_reservation_dueDate = dueDate,
                     ins_reservation_completedAt = None \<rparr>
             in case createReservation inserted reservationData s of
                  (Inl error, s1) \<Rightarrow> ((500, Message ''Failed to create reservation''), s1)
                | (Inr reservation, s1) \<Rightarrow>
                    (let (_, s2) =
                           updateBookAvailability updated bookId (book_availableCopies book - 1) s1
                     in ((201, ReservationJson (Some reservation)), s2))))"

text \<open>
  \<^verbatim>\<open>PUT /api/reservations/:id\<close> hands the body to \<^verbatim>\<open>updateReservation\<close> as it
  came. It does not read \<open>sub\<close>.
\<close>

definition put_api_reservations_id ::
  "string \<Rightarrow> int \<Rightarrow> reservation_updates \<Rightarrow> db \<Rightarrow> response \<times> db" where
  "put_api_reservations_id sub rid req_body s =
     (case updateReservation rid req_body s of
        Inl error \<Rightarrow> ((500, Message ''Failed to update reservation''), s)
      | Inr (reservation, s') \<Rightarrow> ((200, ReservationJson reservation), s'))"

subsection \<open>Admin routes\<close>

definition get_api_admin_users :: "string \<Rightarrow> db \<Rightarrow> response \<times> db" where
  "get_api_admin_users sub s =
     (if not_admin (getUser s sub) then (admin_access_required, s)
      else ((200, UsersJson (getAllUsers s)), s))"

definition get_api_admin_reservations :: "string \<Rightarrow> db \<Rightarrow> response \<times> db" where
  "get_api_admin_reservations sub s =
     (if not_admin (getUser s sub) then (admin_access_required, s)
      else ((200, ActiveReservationsJson (getActiveReservations s)), s))"

subsection \<open>Dashboard stats\<close>

definition get_api_dashboard_stats :: "timestamp \<Rightarrow> string \<Rightarrow> db \<Rightarrow> response \<times> db" where
  "get_api_dashboard_stats now sub s = ((200, StatsJson (getDashboardStats now s sub)), s)"

subsection \<open>Payment routes\<close>

text \<open>
  \<^verbatim>\<open>POST /api/payment/confirm\<close>. \<open>stripe\<close> tells whether the Stripe client was
  created at start-up. \<open>paymentIntentId\<close> is the field of the body: \<open>None\<close> when the body
  has no such field, \<open>Some None\<close> for JSON null; \<^verbatim>\<open>payments.find\<close> compares it with
  \<^verbatim>\<open>===\<close> and takes the first payment that matches. A NULL balance reads as
  \<^verbatim>\<open>"0"\<close>. \<open>now\<close> is the handler's \<^verbatim>\<open>new Date()\<close> for \<^verbatim>\<open>completedAt\<close>,
  \<open>updated\<close> the one of \<^verbatim>\<open>updateUser\<close>.
\<close>

definition post_api_payment_confirm ::
  "bool \<Rightarrow> timestamp \<Rightarrow> timestamp \<Rightarrow> string \<Rightarrow> string option option \<Rightarrow> db \<Rightarrow> response \<times> db" where
  "post_api_payment_confirm stripe now updated sub paymentIntentId s =
     (if \<not> stripe then
        ((503, Message
           ''Payment processing is not available in demo mode. Stripe configuration required.''),
         s)
      else
        case find (\<lambda>p. Some (payment_stripePaymentIntentId p) = paymentIntentId)
               (getUserPayments s sub) of
          None \<Rightarrow> ((200, SuccessJson), s)
        | Some payment \<Rightarrow>
            (let (_, s1) =
                   updatePayment (payment_id payment)
                     (no_payment_updates\<lparr>upd_payment_status := Some ''completed'',
                        upd_payment_completedAt := Some (Some now)\<rparr>) s
             in case getUser s1 sub of
                  None \<Rightarrow> ((200, SuccessJson), s1)
                | Some user \<Rightarrow>
                    (let newBalance =
                           max 0 (set_col (user_outstandingFines user) 0 - payment_amount payment);
                         (_, s2) =
                           updateUser updated sub
                             (no_user_updates\<lparr>upd_user_outstandingFines :=
                                Some (Some newBalance)\<rparr>) s1
                     in ((200, SuccessJson), s2))))"

section \<open>A small library\<close>

text \<open>
  Sample rows, used where a statement is evaluated on a concrete database: two readers
  and an administrator, a book with copies left and one without, two reservations of
  the first reader, an unpaid fine and a pending payment. Amounts are in cents, times
  in milliseconds.
\<close>

definition alice :: user where
  "alice =
     \<lparr> user_id = ''alice'', user_email = Some ''alice@example.org'',
       user_firstName = Some ''Alice'', user_lastName = None, user_profileImageUrl = None,
       user_role = ''user'', user_stripeCustomerId = None, user_stripeSubscriptionId = None,
       user_outstandingFines = Some 500, user_createdAt = Some 10, user_updatedAt = Some 10 \<rparr>"

definition root :: user where
  "root =
     \<lparr> user_id = ''root'', user_email = None, user_firstName = None, user_lastName = None,
       user_profileImageUrl = None, user_role = ''admin'', user_stripeCustomerId = None,
       user_stripeSubscriptionId = None, user_outstandingFines = None,
       user_createdAt = Some 20, user_updatedAt = Some 20 \<rparr>"

definition bob :: user where
  "bob =
     \<lparr> user_id = ''bob'', user_email = Some ''bob@example.org'',
       user_firstName = Some ''Bob'', user_lastName = None, user_profileImageUrl = None,
       user_role = ''user'', user_stripeCustomerId = None, user_stripeSubscriptionId = None,
       user_outstandingFines = Some 0, user_createdAt = Some 25, user_updatedAt = Some 25 \<rparr>"

definition dune :: book where
  "dune =
     \<lparr> book_id = 1, book_title = ''Dune'', book_author = ''Frank Herbert'',
       book_isbn = Some ''9780441013593'', book_genre = ''Science Fiction'',
       book_description = None, book_coverUrl = None, book_publicationYear = Some 1965,
       book_totalCopies = 3, book_availableCopies = 2,
       book_createdAt = Some 30, book_updatedAt = Some 30 \<rparr>"

definition emma :: book where
  "emma =
     \<lparr> book_id = 2, book_title = ''Emma'', book_author = ''Jane Austen'',
       book_isbn = None, book_genre = ''Classic'',
       book_description = None, book_coverUrl = None, book_publicationYear = Some 1815,
       book_totalCopies = 1, book_availableCopies = 0,
       book_createdAt = Some 40, book_updatedAt = Some 40 \<rparr>"

definition loan_dune :: reservation where
  "loan_dune =
     \<lparr> reservation_id = 1, reservation_userId = ''alice'', reservation_bookId = 1,
       reservation_status = ''active'', reservation_reservedAt = Some 50,
       reservation_dueDate = 50 + days 14, reservation_completedAt = None \<rparr>"

definition loan_emma :: reservation where
  "loan_emma =
     \<lparr> reservation_id = 2, reservation_userId = ''alice'', reservation_bookId = 2,
       reservation_status = ''completed'', reservation_reservedAt = Some 60,
       reservation_dueDate = 60 + days 14, reservation_completedAt = Some 70 \<rparr>"

definition late_fee :: fine where
  "late_fee =
     \<lparr> fine_id = 1, fine_userId = ''alice'', fine_reservationId = Some 2,
       fine_amount = 250, fine_reason = ''Late return'', fine_status = ''unpaid'',
       fine_createdAt = Some 80, fine_paidAt = None \<rparr>"

definition card_payment :: payment where
  "card_payment =
     \<lparr> payment_id = 1, payment_userId = ''alice'', payment_fineId = None,
       payment_amount = 1000, payment_stripePaymentIntentId = Some ''pi_1'',
       payment_status = ''pending'', payment_createdAt = Some 90,
       payment_completedAt = None \<rparr>"

definition library :: db where
  "library =
     \<lparr> users = [alice, root, bob], books = [dune, emma],
       reservations = [loan_dune, loan_emma], fines = [late_fee],
       payments = [card_payment],
       books_id_seq = 3, reservations_id_seq = 3, fines_id_seq = 2, payments_id_seq = 2 \<rparr>"


definition hobbit_body :: book_body where
  "hobbit_body =
     \<lparr> body_title = Some (JStr ''The Hobbit''), body_author = Some (JStr ''J. R. R. Tolkien''),
       body_isbn = None, body_genre = Some (JStr ''Fantasy''), body_description = None,
       body_coverUrl = None, body_publicationYear = Some (JNum 1937),
       body_totalCopies = Some (JNum 1), body_availableCopies = Some (JNum 5) \<rparr>"

definition overbooked :: book_updates where
  "overbooked =
     no_book_updates\<lparr>upd_book_totalCopies := Some (Some 1),
       upd_book_availableCopies := Some (Some 5)\<rparr>"

text \<open>
  Bodies of \<^verbatim>\<open>PUT /api/reservations/:id\<close>: the one the reservations page sends
  to return a book, \<^verbatim>\<open>{ status: "completed", completedAt: new Date() }\<close>, whose
  date is a string once it has gone through JSON; the empty object; a status alone.
\<close>

definition return_body :: reservation_updates where
  "return_body =
     no_reservation_updates\<lparr>upd_reservation_status := Some (Some ''completed''),
       upd_reservation_completedAt := Some (Some NotADate)\<rparr>"


section \<open>Auxiliary facts\<close>

lemma find_map_if:
  assumes "\<And>x. P x \<Longrightarrow> P (f x)"
  shows "find P (map (\<lambda>x. if P x then f x else x) xs) = map_option f (find P xs)"
  by (induction xs) (auto simp: assms)

lemma map_if_not_found:
  assumes "find P xs = None"
  shows "map (\<lambda>x. if P x then f x else x) xs = xs"
  using assms by (induction xs) (auto split: if_splits)

lemma find_Some_set: "find P xs = Some x \<Longrightarrow> x \<in> set xs \<and> P x"
  by (induction xs) (auto split: if_splits)

lemma set_order_desc: "set (order_desc col rows) = set rows"
  by (simp add: order_desc_def)

lemma set_payment_completed:
  "set_payment (no_payment_updates\<lparr>upd_payment_status := Some ''completed'',
       upd_payment_completedAt := Some (Some now)\<rparr>) q
   = q\<lparr>payment_status := ''completed'', payment_completedAt := Some now\<rparr>"
  by (simp add: set_payment_def no_payment_updates_def set_col_def)

lemma set_user_balance:
  "set_user (no_user_updates\<lparr>upd_user_outstandingFines := Some (Some v),
       upd_user_updatedAt := Some (Some updated)\<rparr>) u
   = u\<lparr>user_outstandingFines := Some v, user_updatedAt := Some updated\<rparr>"
  by (simp add: set_user_def no_user_updates_def set_col_def)

text \<open>
  The whole effect of a confirmation that finds its payment, for a caller with a user
  row: one response, the payments with that id completed, the caller's balance written.
\<close>

lemma confirm_found:
  assumes "find (\<lambda>q. Some (payment_stripePaymentIntentId q) = pid) (getUserPayments s sub) = Some p"
    and "getUser s sub = Some u"
  shows "post_api_payment_confirm True now updated sub pid s =
     ((200, SuccessJson),
      s\<lparr>payments :=
          map (\<lambda>q. if payment_id q = payment_id p
                    then q\<lparr>payment_status := ''completed'', payment_completedAt := Some now\<rparr>
                    else q) (payments s),
        users :=
          map (\<lambda>v. if user_id v = sub
                    then v\<lparr>user_outstandingFines :=
                             Some (max 0 (set_col (user_outstandingFines u) 0 - payment_amount p)),
                           user_updatedAt := Some updated\<rparr>
                    else v) (users s)\<rparr>)"
  using assms
  by (simp add: post_api_payment_confirm_def updatePayment_def updateUser_def getUser_def
      set_payment_completed set_user_balance)

text \<open>
  The payment that \<^verbatim>\<open>payments.find\<close> returns is a row of the payments table that
  belongs to the caller and carries the id of the request; and it returns one whenever
  such a row exists.
\<close>

lemma confirm_finds_own_payment:
  assumes "find (\<lambda>q. Some (payment_stripePaymentIntentId q) = pid) (getUserPayments s sub) = Some p"
  shows "p \<in> set (payments s) \<and> payment_userId p = sub
         \<and> Some (payment_stripePaymentIntentId p) = pid"
  using find_Some_set [OF assms] by (simp add: getUserPayments_def set_order_desc)

lemma confirm_find_exists:
  assumes "q \<in> set (payments s)" and "payment_userId q = sub"
    and "Some (payment_stripePaymentIntentId q) = pid"
  shows "\<exists>p. find (\<lambda>q. Some (payment_stripePaymentIntentId q) = pid) (getUserPayments s sub) = Some p"
proof -
  have "q \<in> set (getUserPayments s sub)"
    using assms by (simp add: getUserPayments_def set_order_desc)
  with assms(3) have "find (\<lambda>q. Some (payment_stripePaymentIntentId q) = pid) (getUserPayments s sub) \<noteq> None"
    by (auto simp: find_None_iff)
  then show ?thesis by auto
qed

lemma getUser_after_balance:
  assumes "getUser s sub = Some u"
  shows "find (\<lambda>v. user_id v = sub)
           (map (\<lambda>v. if user_id v = sub
                     then v\<lparr>user_outstandingFines := Some nb, user_updatedAt := Some now\<rparr>
                     else v) (users s))
         = Some (u\<lparr>user_outstandingFines := Some nb, user_updatedAt := Some now\<rparr>)"
  using assms
  by (simp add: getUser_def
      find_map_if [where P = "\<lambda>v. user_id v = sub"
        and f = "\<lambda>v. v\<lparr>user_outstandingFines := Some nb, user_updatedAt := Some now\<rparr>"])

section \<open>Dashboard\<close>

text \<open>
  C1 (as amended). The outstanding-fines figure of the dashboard statistics is the sum of
  the amounts of the caller's fine rows whose status is "unpaid" (0 when there is
  none). It is computed from the fines table alone: replacing the users table, and with
  it every stored \<open>outstandingFines\<close> balance, leaves the figure as it is.
\<close>

theorem dashboard_outstanding_fines_sum_unpaid:
  "(\<exists>st. get_api_dashboard_stats now sub s = ((200, StatsJson st), s)
        \<and> stats_outstandingFines st =
            (\<Sum>f\<leftarrow>filter (\<lambda>f. fine_userId f = sub \<and> fine_status f = ''unpaid'') (fines s).
               fine_amount f))
   \<and> stats_outstandingFines (getDashboardStats now (s\<lparr>users := us\<rparr>) sub)
       = stats_outstandingFines (getDashboardStats now s sub)"
  by (simp add: get_api_dashboard_stats_def getDashboardStats_def getTotalFines_def)

text \<open>
  C1 (as stated) fails: in the sample library the reader's stored balance is 5.00 while
  the dashboard reports 2.50, the amount of her one unpaid fine.
\<close>

theorem dashboard_outstanding_fines_counterexample:
  "getUser library ''alice'' = Some alice
   \<and> user_outstandingFines alice = Some 500
   \<and> fst (get_api_dashboard_stats 100 ''alice'' library)
       = (200, StatsJson \<lparr> stats_activeReservations = 1, stats_availableBooks = 2,
                            stats_dueSoon = 0, stats_outstandingFines = 250 \<rparr>)"
  by (simp add: get_api_dashboard_stats_def getDashboardStats_def getTotalFines_def
      getUser_def library_def alice_def root_def dune_def emma_def loan_dune_def
      loan_emma_def late_fee_def days_def)

text \<open>
  C6. The "due soon" figure counts exactly the reservation rows of the caller whose
  status is "active" and whose due date lies between now and now + 3 days, both ends
  included; a row with another status, another owner or a due date outside the window
  adds nothing.
\<close>

theorem dashboard_due_soon_count:
  "stats_dueSoon (getDashboardStats now s uid) =
     card {i. i < length (reservations s)
            \<and> reservation_userId (reservations s ! i) = uid
            \<and> reservation_status (reservations s ! i) = ''active''
            \<and> now \<le> reservation_dueDate (reservations s ! i)
            \<and> reservation_dueDate (reservations s ! i) \<le> now + days 3}"
  by (simp add: getDashboardStats_def length_filter_conv_card)

section \<open>Reservations\<close>

lemma getBook_after_availability:
  assumes "getBook s bid = Some b"
  shows "find (\<lambda>x. book_id x = bid)
           (map (\<lambda>x. if book_id x = bid
                     then x\<lparr>book_availableCopies := n, book_updatedAt := Some now\<rparr>
                     else x) (books s))
         = Some (b\<lparr>book_availableCopies := n, book_updatedAt := Some now\<rparr>)"
  using assms
  by (simp add: getBook_def
      find_map_if [where P = "\<lambda>x. book_id x = bid"
        and f = "\<lambda>x. x\<lparr>book_availableCopies := n, book_updatedAt := Some now\<rparr>"])

lemma getUser_is_key:
  assumes "getUser s sub = Some u"
  shows "sub \<in> set (map user_id (users s))"
  using find_Some_set [of "\<lambda>u. user_id u = sub" "users s" u] assms
  by (auto simp: getUser_def)

lemma getBook_is_key:
  assumes "getBook s bid = Some b"
  shows "bid \<in> set (map book_id (books s))"
  using find_Some_set [of "\<lambda>b. book_id b = bid" "books s" b] assms
  by (auto simp: getBook_def)

text \<open>
  C2 (as amended). Let a book have \<open>N > 0\<close> available copies, let the caller have a user
  row and let the key sequence of the reservations be ahead of the stored keys. Then the
  reservation request answers 201 with the new reservation; the reservations table
  grows by exactly that row, whose status is "active". Its due date is the handler's
  clock reading plus 14 days, its \<open>reservedAt\<close> is the database's clock reading at the
  insert: two readings, so that \<open>dueDate = reservedAt + 14 days\<close> holds when they
  agree. Afterwards the book has \<open>N - 1\<close> available copies.
\<close>

theorem reserve_available_book:
  assumes "getBook s bookId = Some b"
    and "book_availableCopies b = N"
    and "0 < N"
    and "getUser s sub = Some u"
    and "reservations_id_seq s \<notin> set (map reservation_id (reservations s))"
  shows "\<exists>r s'. post_api_reservations now inserted updated sub bookId s
                   = ((201, ReservationJson (Some r)), s')
           \<and> reservations s' = reservations s @ [r]
           \<and> reservation_userId r = sub
           \<and> reservation_bookId r = bookId
           \<and> reservation_status r = ''active''
           \<and> reservation_dueDate r = now + days 14
           \<and> reservation_reservedAt r = Some inserted
           \<and> (inserted = now \<longrightarrow> Some (reservation_dueDate r)
                 = map_option (\<lambda>t. t + days 14) (reservation_reservedAt r))
           \<and> getBook s' bookId
               = Some (b\<lparr>book_availableCopies := N - 1, book_updatedAt := Some updated\<rparr>)"
proof -
  let ?r = "\<lparr> reservation_id = reservations_id_seq s, reservation_userId = sub,
              reservation_bookId = bookId, reservation_status = ''active'',
              reservation_reservedAt = Some inserted, reservation_dueDate = now + days 14,
              reservation_completedAt = None \<rparr>"
  let ?s' = "s\<lparr>reservations_id_seq := reservations_id_seq s + 1,
               reservations := reservations s @ [?r],
               books := map (\<lambda>x. if book_id x = bookId
                                  then x\<lparr>book_availableCopies := N - 1,
                                         book_updatedAt := Some updated\<rparr>
                                  else x) (books s)\<rparr>"
  have created: "createReservation inserted
          \<lparr> ins_reservation_userId = sub, ins_reservation_bookId = bookId,
            ins_reservation_status = Some ''active'',
            ins_reservation_dueDate = now + days 14,
            ins_reservation_completedAt = None \<rparr> s
        = (Inr ?r, s\<lparr>reservations_id_seq := reservations_id_seq s + 1,
                     reservations := reservations s @ [?r]\<rparr>)"
    using assms(5) getUser_is_key [OF assms(4)] getBook_is_key [OF assms(1)]
    by (simp add: createReservation_def set_col_def Let_def)
  have run: "post_api_reservations now inserted updated sub bookId s
               = ((201, ReservationJson (Some ?r)), ?s')"
    using assms(1-3)
    by (simp add: post_api_reservations_def created updateBookAvailability_def Let_def)
  have book: "getBook ?s' bookId
                = Some (b\<lparr>book_availableCopies := N - 1, book_updatedAt := Some updated\<rparr>)"
    using getBook_after_availability [OF assms(1), where n = "N - 1" and now = updated]
    by (simp add: getBook_def)
  have rows: "reservations ?s' = reservations s @ [?r]"
    by simp
  from run book rows show ?thesis
    by (intro exI [of _ ?r] exI [of _ ?s']) simp
qed

theorem reserve_available_book_witness:
  "getBook library 1 = Some dune
   \<and> book_availableCopies dune = 2
   \<and> getUser library ''bob'' = Some bob
   \<and> reservations_id_seq library \<notin> set (map reservation_id (reservations library))
   \<and> (\<exists>r s'. post_api_reservations 100 103 105 ''bob'' 1 library
                 = ((201, ReservationJson (Some r)), s')
           \<and> reservations s' = reservations library @ [r]
           \<and> reservation_userId r = ''bob''
           \<and> reservation_bookId r = 1
           \<and> reservation_status r = ''active''
           \<and> reservation_dueDate r = 100 + days 14
           \<and> reservation_reservedAt r = Some 103
           \<and> getBook s' 1 = Some (dune\<lparr>book_availableCopies := 2 - 1, book_updatedAt := Some 105\<rparr>))"
proof -
  have h1: "getBook library 1 = Some dune"
    by (simp add: getBook_def library_def dune_def)
  have h2: "book_availableCopies dune = 2"
    by (simp add: dune_def)
  have h3: "(0::int) < 2"
    by simp
  have h4: "getUser library ''bob'' = Some bob"
    by (simp add: getUser_def library_def alice_def root_def bob_def)
  have h5: "reservations_id_seq library \<notin> set (map reservation_id (reservations library))"
    by (simp add: library_def loan_dune_def loan_emma_def)
  from reserve_available_book [OF h1 h2 h3 h4 h5, of 100 103 105] h1 h2 h4 h5
  show ?thesis by blast
qed

text \<open>
  C2 (as stated) fails. The handler reads its clock at 100 and the insert is stamped at
  103: the due date of the new row is 100 + 14 days, which is not its \<open>reservedAt\<close> +
  14 days. And a caller without a user row gets 500 and no reservation, although the
  book has copies.
\<close>

theorem reserve_due_date_counterexample:
  "getBook library 1 = Some dune
   \<and> book_availableCopies dune = 2
   \<and> fst (post_api_reservations 100 103 105 ''bob'' 1 library)
       = (201, ReservationJson (Some
            \<lparr> reservation_id = 3, reservation_userId = ''bob'', reservation_bookId = 1,
              reservation_status = ''active'', reservation_reservedAt = Some 103,
              reservation_dueDate = 100 + days 14, reservation_completedAt = None \<rparr>))
   \<and> (100::int) + days 14 \<noteq> 103 + days 14
   \<and> getUser library ''mallory'' = None
   \<and> fst (post_api_reservations 100 103 105 ''mallory'' 1 library)
       = (500, Message ''Failed to create reservation'')
   \<and> reservations (snd (post_api_reservations 100 103 105 ''mallory'' 1 library))
       = reservations library"
proof -
  have h1: "getBook library 1 = Some dune"
    by (simp add: getBook_def library_def dune_def)
  have h2: "book_availableCopies dune = 2"
    by (simp add: dune_def)
  have ids: "map user_id (users library) = [''alice'', ''root'', ''bob'']"
      "map book_id (books library) = [1, 2]"
      "map reservation_id (reservations library) = [1, 2]"
      "reservations_id_seq library = 3"
    by (simp_all add: library_def alice_def root_def bob_def dune_def emma_def
        loan_dune_def loan_emma_def)
  have bob: "fst (post_api_reservations 100 103 105 ''bob'' 1 library)
       = (201, ReservationJson (Some
            \<lparr> reservation_id = 3, reservation_userId = ''bob'', reservation_bookId = 1,
              reservation_status = ''active'', reservation_reservedAt = Some 103,
              reservation_dueDate = 100 + days 14, reservation_completedAt = None \<rparr>))"
    by (simp add: post_api_reservations_def h1 h2 createReservation_def ids
        updateBookAvailability_def set_col_def Let_def)
  have g: "getUser library ''mallory'' = None"
    by (simp add: getUser_def library_def alice_def root_def bob_def)
  have mallory: "post_api_reservations 100 103 105 ''mallory'' 1 library
       = ((500, Message ''Failed to create reservation''),
          library\<lparr>reservations_id_seq := reservations_id_seq library + 1\<rparr>)"
    by (simp add: post_api_reservations_def h1 h2 createReservation_def ids
        set_col_def Let_def)
  have d: "(100::int) + days 14 \<noteq> 103 + days 14"
    by (simp add: days_def)
  from h1 h2 bob g d show ?thesis
    by (simp add: mallory)
qed



lemma updateReservation_frame:
  "updateReservation rid updates s = Inr (row, s')
   \<Longrightarrow> books s' = books s \<and> users s' = users s \<and> fines s' = fines s
       \<and> payments s' = payments s"
  by (auto simp: updateReservation_def split: if_splits)

lemma put_api_reservations_id_frame:
  "books (snd (put_api_reservations_id sub rid req_body s)) = books s
   \<and> users (snd (put_api_reservations_id sub rid req_body s)) = users s
   \<and> fines (snd (put_api_reservations_id sub rid req_body s)) = fines s
   \<and> payments (snd (put_api_reservations_id sub rid req_body s)) = payments s"
proof (cases "updateReservation rid req_body s")
  case (Inl e)
  then show ?thesis by (simp add: put_api_reservations_id_def)
next
  case (Inr res)
  obtain row s' where res: "res = (row, s')" by (cases res)
  from updateReservation_frame [of rid req_body s row s'] Inr res
  show ?thesis by (simp add: put_api_reservations_id_def)
qed

text \<open>
  C4. Updating a reservation writes the reservations table only: whatever the body, and
  whether the request is answered 200 or 500, the books table (and with it every copy
  count), the users, fines and payments are the same afterwards. Marking a return,
  \<^verbatim>\<open>updateReservation(id, { status: "completed", completedAt })\<close> with a date,
  always succeeds and changes \<open>status\<close> and \<open>completedAt\<close> of the rows with the given id
  and nothing else; so does the request whose body is \<^verbatim>\<open>{ status: "completed" }\<close>,
  for \<open>status\<close> alone.
\<close>

theorem complete_reservation_frame:
  "books (snd (put_api_reservations_id sub rid req_body s)) = books s
   \<and> users (snd (put_api_reservations_id sub rid req_body s)) = users s
   \<and> fines (snd (put_api_reservations_id sub rid req_body s)) = fines s
   \<and> payments (snd (put_api_reservations_id sub rid req_body s)) = payments s
   \<and> getBook (snd (put_api_reservations_id sub rid req_body s)) bid = getBook s bid
   \<and> updateReservation rid
        (no_reservation_updates\<lparr>upd_reservation_status := Some (Some ''completed''),
           upd_reservation_completedAt := Some (Some (Date t))\<rparr>) s
       = Inr (map_option (\<lambda>r. r\<lparr>reservation_status := ''completed'',
                                  reservation_completedAt := Some t\<rparr>)
                (find (\<lambda>r. reservation_id r = rid) (reservations s)),
              s\<lparr>reservations :=
                  map (\<lambda>r. if reservation_id r = rid
                            then r\<lparr>reservation_status := ''completed'',
                                   reservation_completedAt := Some t\<rparr>
                            else r) (reservations s)\<rparr>)
   \<and> put_api_reservations_id sub rid
        (no_reservation_updates\<lparr>upd_reservation_status := Some (Some ''completed'')\<rparr>) s
       = ((200, ReservationJson
                  (map_option (\<lambda>r. r\<lparr>reservation_status := ''completed''\<rparr>)
                     (find (\<lambda>r. reservation_id r = rid) (reservations s)))),
          s\<lparr>reservations :=
              map (\<lambda>r. if reservation_id r = rid
                        then r\<lparr>reservation_status := ''completed''\<rparr>
                        else r) (reservations s)\<rparr>)"
proof -
  let ?date = "no_reservation_updates\<lparr>upd_reservation_status := Some (Some ''completed''),
                 upd_reservation_completedAt := Some (Some (Date t))\<rparr>"
  let ?status = "no_reservation_updates\<lparr>upd_reservation_status := Some (Some ''completed'')\<rparr>"
  have set_date: "set_reservation ?date r
      = r\<lparr>reservation_status := ''completed'', reservation_completedAt := Some t\<rparr>" for r
    by (simp add: set_reservation_def no_reservation_updates_def set_required_def
        set_nullable_time_def set_required_time_def)
  have set_status: "set_reservation ?status r = r\<lparr>reservation_status := ''completed''\<rparr>" for r
    by (simp add: set_reservation_def no_reservation_updates_def set_required_def
        set_nullable_time_def set_required_time_def)
  have checks: "?date \<noteq> no_reservation_updates" "?status \<noteq> no_reservation_updates"
      "pg_text ''completed''"
    by (simp_all add: no_reservation_updates_def pg_text_def)
  have frame: "books (snd (put_api_reservations_id sub rid req_body s)) = books s
      \<and> users (snd (put_api_reservations_id sub rid req_body s)) = users s
      \<and> fines (snd (put_api_reservations_id sub rid req_body s)) = fines s
      \<and> payments (snd (put_api_reservations_id sub rid req_body s)) = payments s"
    by (rule put_api_reservations_id_frame)
  then have book: "getBook (snd (put_api_reservations_id sub rid req_body s)) bid = getBook s bid"
    by (simp add: getBook_def)
  have storage: "updateReservation rid ?date s
       = Inr (map_option (\<lambda>r. r\<lparr>reservation_status := ''completed'',
                                  reservation_completedAt := Some t\<rparr>)
                (find (\<lambda>r. reservation_id r = rid) (reservations s)),
              s\<lparr>reservations :=
                  map (\<lambda>r. if reservation_id r = rid
                            then r\<lparr>reservation_status := ''completed'',
                                   reservation_completedAt := Some t\<rparr>
                            else r) (reservations s)\<rparr>)"
  proof (cases "find (\<lambda>r. reservation_id r = rid) (reservations s)")
    case None
    from map_if_not_found [OF None] None checks show ?thesis
      by (simp add: updateReservation_def not_a_date_def given_def is_null_def
          no_reservation_updates_def)
  next
    case (Some r)
    with checks show ?thesis
      by (simp add: updateReservation_def not_a_date_def given_def is_null_def set_date)
         (simp add: no_reservation_updates_def)
  qed
  have handler: "put_api_reservations_id sub rid ?status s
       = ((200, ReservationJson
                  (map_option (\<lambda>r. r\<lparr>reservation_status := ''completed''\<rparr>)
                     (find (\<lambda>r. reservation_id r = rid) (reservations s)))),
          s\<lparr>reservations :=
              map (\<lambda>r. if reservation_id r = rid
                        then r\<lparr>reservation_status := ''completed''\<rparr>
                        else r) (reservations s)\<rparr>)"
  proof (cases "find (\<lambda>r. reservation_id r = rid) (reservations s)")
    case None
    from map_if_not_found [OF None] None checks show ?thesis
      by (simp add: put_api_reservations_id_def updateReservation_def not_a_date_def
          given_def is_null_def no_reservation_updates_def)
  next
    case (Some r)
    with checks show ?thesis
      by (simp add: put_api_reservations_id_def updateReservation_def not_a_date_def
          given_def is_null_def set_status)
         (simp add: no_reservation_updates_def)
  qed
  from frame book storage handler show ?thesis by blast
qed

theorem complete_reservation_frame_witness:
  "books (snd (put_api_reservations_id ''alice'' 1 return_body library)) = books library
   \<and> getBook (snd (put_api_reservations_id ''alice'' 1 return_body library)) 1 = Some dune
   \<and> book_availableCopies dune = 2
   \<and> updateReservation 1
        (no_reservation_updates\<lparr>upd_reservation_status := Some (Some ''completed''),
           upd_reservation_completedAt := Some (Some (Date 200))\<rparr>) library
       = Inr (Some (loan_dune\<lparr>reservation_status := ''completed'',
                              reservation_completedAt := Some 200\<rparr>),
              library\<lparr>reservations :=
                [loan_dune\<lparr>reservation_status := ''completed'',
                           reservation_completedAt := Some 200\<rparr>, loan_emma]\<rparr>)"
proof -
  have h1: "getBook library 1 = Some dune"
    by (simp add: getBook_def library_def dune_def)
  have h2: "book_availableCopies dune = 2"
    by (simp add: dune_def)
  have f: "find (\<lambda>r. reservation_id r = 1) (reservations library) = Some loan_dune"
    by (simp add: library_def loan_dune_def)
  have m: "map (\<lambda>r. if reservation_id r = 1
                     then r\<lparr>reservation_status := ''completed'',
                            reservation_completedAt := Some 200\<rparr>
                     else r) (reservations library)
           = [loan_dune\<lparr>reservation_status := ''completed'',
                        reservation_completedAt := Some 200\<rparr>, loan_emma]"
    by (simp add: library_def loan_dune_def loan_emma_def)
  from complete_reservation_frame [of "''alice''" 1 return_body library 1 200] h1 h2
  show ?thesis by (simp add: f m)
qed




section \<open>Administration\<close>

text \<open>
  C7. A caller whose user row has a role other than "admin" gets 403 from each of the
  five admin-gated handlers (create, update and delete a book, list the users, list the
  active reservations), and the database is left as it was.
\<close>

theorem admin_gate_rejects_non_admin:
  assumes "getUser s sub = Some u"
    and "user_role u \<noteq> ''admin''"
  shows "post_api_books now sub new_book s = ((403, Message ''Admin access required''), s)
       \<and> put_api_books_id now sub bid book_changes s
            = ((403, Message ''Admin access required''), s)
       \<and> delete_api_books_id sub bid s = ((403, Message ''Admin access required''), s)
       \<and> get_api_admin_users sub s = ((403, Message ''Admin access required''), s)
       \<and> get_api_admin_reservations sub s = ((403, Message ''Admin access required''), s)"
  using assms
  by (simp add: post_api_books_def put_api_books_id_def delete_api_books_id_def
      get_api_admin_users_def get_api_admin_reservations_def not_admin_def
      admin_access_required_def)

theorem admin_gate_rejects_non_admin_witness:
  "getUser library ''alice'' = Some alice
   \<and> user_role alice \<noteq> ''admin''
   \<and> post_api_books 100 ''alice'' hobbit_body library
        = ((403, Message ''Admin access required''), library)
   \<and> put_api_books_id 100 ''alice'' 1 overbooked library
        = ((403, Message ''Admin access required''), library)
   \<and> delete_api_books_id ''alice'' 1 library = ((403, Message ''Admin access required''), library)
   \<and> get_api_admin_users ''alice'' library = ((403, Message ''Admin access required''), library)
   \<and> get_api_admin_reservations ''alice'' library
        = ((403, Message ''Admin access required''), library)"
proof -
  have h1: "getUser library ''alice'' = Some alice"
    by (simp add: getUser_def library_def alice_def)
  have h2: "user_role alice \<noteq> ''admin''"
    by (simp add: alice_def)
  from admin_gate_rejects_non_admin [OF h1 h2, of 100 hobbit_body 1 overbooked] h1 h2
  show ?thesis by simp
qed

text \<open>
  C8. Nothing keeps \<open>availableCopies\<close> at or below \<open>totalCopies\<close>. For an
  administrator and any two 32-bit counts \<open>t < a\<close>: creating a book from a valid body
  that gives \<open>t\<close> total and \<open>a\<close> available copies answers 201 and stores the row with
  these counts (the key sequence being ahead of the stored keys); updating an existing
  book with \<^verbatim>\<open>{ totalCopies: t, availableCopies: a }\<close> answers 200 and stores them
  too.
\<close>

theorem copies_bound_not_enforced:
  assumes "getUser s sub = Some u"
    and "user_role u = ''admin''"
    and "t < a"
    and "int4 t"
    and "int4 a"
    and "body_title new_book = Some (JStr title)"
    and "pg_text title"
    and "body_author new_book = Some (JStr author)"
    and "pg_text author"
    and "body_genre new_book = Some (JStr genre)"
    and "pg_text genre"
    and "body_isbn new_book = None"
    and "body_description new_book = None"
    and "body_coverUrl new_book = None"
    and "body_publicationYear new_book = None \<or> body_publicationYear new_book = Some JNull
         \<or> (\<exists>y. body_publicationYear new_book = Some (JNum y) \<and> int4 y)"
    and "body_totalCopies new_book = Some (JNum t)"
    and "body_availableCopies new_book = Some (JNum a)"
    and "books_id_seq s \<notin> set (map book_id (books s))"
    and "getBook s bid = Some b"
  shows "(\<exists>nb s'. post_api_books now sub new_book s = ((201, BookJson (Some nb)), s')
            \<and> books s' = books s @ [nb]
            \<and> book_totalCopies nb = t \<and> book_availableCopies nb = a
            \<and> book_totalCopies nb < book_availableCopies nb)
       \<and> (\<exists>ub s'. put_api_books_id now sub bid
                      (no_book_updates\<lparr>upd_book_totalCopies := Some (Some t),
                         upd_book_availableCopies := Some (Some a)\<rparr>) s
                    = ((200, BookJson (Some ub)), s')
            \<and> getBook s' bid = Some ub
            \<and> ub = b\<lparr>book_totalCopies := t, book_availableCopies := a,
                      book_updatedAt := Some now\<rparr>
            \<and> book_totalCopies ub < book_availableCopies ub)"
proof -
  have admin: "\<not> not_admin (getUser s sub)"
    using assms(1,2) by (simp add: not_admin_def)
  obtain year where year: "zod_nullable_int4 (body_publicationYear new_book) = Some year"
      "given int4 (Some year)"
    using assms(15) by (auto simp: zod_nullable_int4_def given_def)
  let ?d = "\<lparr> ins_book_title = title, ins_book_author = author, ins_book_isbn = None,
              ins_book_genre = genre, ins_book_description = None, ins_book_coverUrl = None,
              ins_book_publicationYear = year, ins_book_totalCopies = Some t,
              ins_book_availableCopies = Some a \<rparr>"
  have parsed: "insertBookSchema_parse new_book = Some ?d"
    using assms(4-6,8,10,12-14,16,17) year(1)
    by (simp add: insertBookSchema_parse_def zod_string_def zod_nullable_string_def
        zod_nullable_varchar13_def zod_optional_int4_def)
  let ?nb = "\<lparr> book_id = books_id_seq s, book_title = title, book_author = author,
               book_isbn = None, book_genre = genre, book_description = None,
               book_coverUrl = None, book_publicationYear = year,
               book_totalCopies = t, book_availableCopies = a,
               book_createdAt = Some now, book_updatedAt = Some now \<rparr>"
  have inserted: "createBook now ?d s
      = (Inr ?nb, s\<lparr>books := books s @ [?nb], books_id_seq := books_id_seq s + 1\<rparr>)"
    using assms(4,5,7,9,11,18) year(2)
    by (simp add: createBook_def given_def set_col_def Let_def)
  have created: "\<exists>nb s'. post_api_books now sub new_book s = ((201, BookJson (Some nb)), s')
            \<and> books s' = books s @ [nb]
            \<and> book_totalCopies nb = t \<and> book_availableCopies nb = a
            \<and> book_totalCopies nb < book_availableCopies nb"
    using admin assms(3)
    by (simp add: post_api_books_def parsed inserted)
  let ?upd = "no_book_updates\<lparr>upd_book_totalCopies := Some (Some t),
                upd_book_availableCopies := Some (Some a),
                upd_book_updatedAt := Some (Some (Date now))\<rparr>"
  have found: "find (\<lambda>x. book_id x = bid) (books s) = Some b"
    using assms(19) by (simp add: getBook_def)
  have applied: "set_book ?upd x
      = x\<lparr>book_totalCopies := t, book_availableCopies := a, book_updatedAt := Some now\<rparr>" for x
    by (simp add: set_book_def no_book_updates_def set_required_def set_nullable_def
        set_nullable_time_def)
  have stored: "updateBook now bid
        (no_book_updates\<lparr>upd_book_totalCopies := Some (Some t),
           upd_book_availableCopies := Some (Some a)\<rparr>) s
      = Inr (Some (b\<lparr>book_totalCopies := t, book_availableCopies := a,
                      book_updatedAt := Some now\<rparr>),
             s\<lparr>books := map (\<lambda>x. if book_id x = bid
                                  then x\<lparr>book_totalCopies := t, book_availableCopies := a,
                                         book_updatedAt := Some now\<rparr>
                                  else x) (books s)\<rparr>)"
    using found assms(4,5)
    by (simp add: updateBook_def Let_def applied)
       (simp add: no_book_updates_def not_a_date_def given_def is_null_def)
  have after: "find (\<lambda>x. book_id x = bid)
        (map (\<lambda>x. if book_id x = bid
                  then x\<lparr>book_totalCopies := t, book_availableCopies := a,
                         book_updatedAt := Some now\<rparr>
                  else x) (books s))
      = Some (b\<lparr>book_totalCopies := t, book_availableCopies := a, book_updatedAt := Some now\<rparr>)"
    using found
    by (simp add: find_map_if [where P = "\<lambda>x. book_id x = bid"
          and f = "\<lambda>x. x\<lparr>book_totalCopies := t, book_availableCopies := a,
                          book_updatedAt := Some now\<rparr>"])
  have updated: "\<exists>ub s'. put_api_books_id now sub bid
                      (no_book_updates\<lparr>upd_book_totalCopies := Some (Some t),
                         upd_book_availableCopies := Some (Some a)\<rparr>) s
                    = ((200, BookJson (Some ub)), s')
            \<and> getBook s' bid = Some ub
            \<and> ub = b\<lparr>book_totalCopies := t, book_availableCopies := a,
                      book_updatedAt := Some now\<rparr>
            \<and> book_totalCopies ub < book_availableCopies ub"
    using admin assms(3) after
    by (simp add: put_api_books_id_def stored getBook_def)
  from created updated show ?thesis by blast
qed

theorem copies_bound_not_enforced_witness:
  "getUser library ''root'' = Some root
   \<and> user_role root = ''admin''
   \<and> getBook library 1 = Some dune
   \<and> overbooked = no_book_updates\<lparr>upd_book_totalCopies := Some (Some 1),
                      upd_book_availableCopies := Some (Some 5)\<rparr>
   \<and> (\<exists>nb s'. post_api_books 100 ''root'' hobbit_body library = ((201, BookJson (Some nb)), s')
            \<and> books s' = books library @ [nb]
            \<and> book_totalCopies nb = 1 \<and> book_availableCopies nb = 5
            \<and> book_totalCopies nb < book_availableCopies nb)
   \<and> (\<exists>ub s'. put_api_books_id 100 ''root'' 1 overbooked library = ((200, BookJson (Some ub)), s')
            \<and> getBook s' 1 = Some ub
            \<and> ub = dune\<lparr>book_totalCopies := 1, book_availableCopies := 5,
                         book_updatedAt := Some 100\<rparr>
            \<and> book_totalCopies ub < book_availableCopies ub)"
proof -
  have h1: "getUser library ''root'' = Some root"
    by (simp add: getUser_def library_def alice_def root_def)
  have h2: "user_role root = ''admin''"
    by (simp add: root_def)
  have h3: "(1::int) < 5"
    by simp
  have h4: "int4 1" and h5: "int4 5"
    by (simp_all add: int4_def)
  have h6: "body_title hobbit_body = Some (JStr ''The Hobbit'')"
    and h8: "body_author hobbit_body = Some (JStr ''J. R. R. Tolkien'')"
    and h10: "body_genre hobbit_body = Some (JStr ''Fantasy'')"
    and h12: "body_isbn hobbit_body = None"
    and h13: "body_description hobbit_body = None"
    and h14: "body_coverUrl hobbit_body = None"
    and h16: "body_totalCopies hobbit_body = Some (JNum 1)"
    and h17: "body_availableCopies hobbit_body = Some (JNum 5)"
    by (simp_all add: hobbit_body_def)
  have h7: "pg_text ''The Hobbit''" and h9: "pg_text ''J. R. R. Tolkien''"
    and h11: "pg_text ''Fantasy''"
    by (simp_all add: pg_text_def)
  have h15: "body_publicationYear hobbit_body = None
             \<or> body_publicationYear hobbit_body = Some JNull
             \<or> (\<exists>y. body_publicationYear hobbit_body = Some (JNum y) \<and> int4 y)"
    by (simp add: hobbit_body_def int4_def)
  have h18: "books_id_seq library \<notin> set (map book_id (books library))"
    by (simp add: library_def dune_def emma_def)
  have h19: "getBook library 1 = Some dune"
    by (simp add: getBook_def library_def dune_def)
  have o: "overbooked = no_book_updates\<lparr>upd_book_totalCopies := Some (Some 1),
                      upd_book_availableCopies := Some (Some 5)\<rparr>"
    by (simp add: overbooked_def)
  from copies_bound_not_enforced [OF h1 h2 h3 h4 h5 h6 h7 h8 h9 h10 h11 h12 h13 h14 h15 h16
      h17 h18 h19, of 100] h1 h2 h19 o
  show ?thesis by simp
qed

section \<open>Payment confirmation\<close>

text \<open>The caller's user row after such a confirmation.\<close>

lemma confirm_user_row:
  assumes "find (\<lambda>q. Some (payment_stripePaymentIntentId q) = pid) (getUserPayments s sub) = Some p"
    and "getUser s sub = Some u"
  shows "getUser (snd (post_api_payment_confirm True now updated sub pid s)) sub =
           Some (u\<lparr>user_outstandingFines :=
                      Some (max 0 (set_col (user_outstandingFines u) 0 - payment_amount p)),
                    user_updatedAt := Some updated\<rparr>)"
  using getUser_after_balance [OF assms(2),
        where nb = "max 0 (set_col (user_outstandingFines u) 0 - payment_amount p)"
          and now = updated]
  unfolding confirm_found [OF assms]
  by (simp add: getUser_def)

text \<open>
  C5 (as amended). When Stripe is configured, the caller has a user row and
  \<^verbatim>\<open>payments.find\<close> returns a payment \<open>p\<close> of the caller with the id of the request,
  the confirmation answers 200, sets the status of the payment rows with \<open>p\<close>'s id to
  "completed" (and their \<open>completedAt\<close> to the handler's clock reading), and lowers the caller's stored balance
  by the amount of \<open>p\<close>, but not below zero: the new balance is the old one minus the
  amount when the amount does not exceed the old balance, and 0 otherwise.
\<close>

theorem confirm_completes_payment_and_lowers_balance:
  assumes "find (\<lambda>q. Some (payment_stripePaymentIntentId q) = pid) (getUserPayments s sub) = Some p"
    and "getUser s sub = Some u"
  shows "\<exists>s'. post_api_payment_confirm True now updated sub pid s = ((200, SuccessJson), s')
          \<and> payments s' =
              map (\<lambda>q. if payment_id q = payment_id p
                        then q\<lparr>payment_status := ''completed'', payment_completedAt := Some now\<rparr>
                        else q) (payments s)
          \<and> getUser s' sub =
              Some (u\<lparr>user_outstandingFines :=
                         Some (if payment_amount p \<le> set_col (user_outstandingFines u) 0
                               then set_col (user_outstandingFines u) 0 - payment_amount p
                               else 0),
                       user_updatedAt := Some updated\<rparr>)"
proof -
  have clamp: "max 0 (set_col (user_outstandingFines u) 0 - payment_amount p)
      = (if payment_amount p \<le> set_col (user_outstandingFines u) 0
         then set_col (user_outstandingFines u) 0 - payment_amount p else 0)"
    by simp
  from confirm_user_row [OF assms, of now updated] confirm_found [OF assms, of now updated]
  show ?thesis
    unfolding clamp by simp
qed

theorem confirm_completes_payment_and_lowers_balance_witness:
  "find (\<lambda>q. Some (payment_stripePaymentIntentId q) = Some (Some ''pi_1''))
     (getUserPayments library ''alice'') = Some card_payment
   \<and> getUser library ''alice'' = Some alice
   \<and> (\<exists>s'. post_api_payment_confirm True 100 102 ''alice'' (Some (Some ''pi_1'')) library
              = ((200, SuccessJson), s')
          \<and> payments s' =
              [card_payment\<lparr>payment_status := ''completed'', payment_completedAt := Some 100\<rparr>]
          \<and> getUser s' ''alice'' =
              Some (alice\<lparr>user_outstandingFines := Some 0, user_updatedAt := Some 102\<rparr>))"
proof -
  have h1: "find (\<lambda>q. Some (payment_stripePaymentIntentId q) = Some (Some ''pi_1''))
     (getUserPayments library ''alice'') = Some card_payment"
    by (simp add: getUserPayments_def order_desc_def library_def card_payment_def)
  have h2: "getUser library ''alice'' = Some alice"
    by (simp add: getUser_def library_def alice_def)
  have p: "payments library = [card_payment]"
    by (simp add: library_def)
  have a: "payment_amount card_payment = 1000" "user_outstandingFines alice = Some 500"
    by (simp_all add: card_payment_def alice_def)
  from confirm_completes_payment_and_lowers_balance [OF h1 h2, of 100 102] h1 h2
  show ?thesis by (simp add: p a set_col_def)
qed

text \<open>
  C5 (as stated) fails: the reader owes 5.00 and her recorded payment is of 10.00;
  after the confirmation her stored balance is 0.00, not 5.00 - 10.00.
\<close>

theorem confirm_decrement_counterexample:
  "getUser library ''alice'' = Some alice
   \<and> user_outstandingFines alice = Some 500
   \<and> card_payment \<in> set (getUserPayments library ''alice'')
   \<and> payment_stripePaymentIntentId card_payment = Some ''pi_1''
   \<and> payment_amount card_payment = 1000
   \<and> map_option user_outstandingFines
        (getUser (snd (post_api_payment_confirm True 100 102 ''alice'' (Some (Some ''pi_1'')) library))
           ''alice'') = Some (Some 0)
   \<and> Some (Some (0::int)) \<noteq> Some (Some (500 - 1000))"
proof -
  have h1: "find (\<lambda>q. Some (payment_stripePaymentIntentId q) = Some (Some ''pi_1''))
     (getUserPayments library ''alice'') = Some card_payment"
    by (simp add: getUserPayments_def order_desc_def library_def card_payment_def)
  have h2: "getUser library ''alice'' = Some alice"
    by (simp add: getUser_def library_def alice_def)
  have a: "payment_amount card_payment = 1000" "user_outstandingFines alice = Some 500"
      "payment_stripePaymentIntentId card_payment = Some ''pi_1''"
    by (simp_all add: card_payment_def alice_def)
  have m: "card_payment \<in> set (getUserPayments library ''alice'')"
    using find_Some_set [OF h1] by simp
  have r: "map_option user_outstandingFines
        (getUser (snd (post_api_payment_confirm True 100 102 ''alice'' (Some (Some ''pi_1'')) library))
           ''alice'') = Some (Some 0)"
    using confirm_user_row [OF h1 h2, of 100 102]
    by (simp add: a set_col_def)
  from h2 a m r show ?thesis by simp
qed

text \<open>
  C9. Under the same conditions the balance stored for the caller after the
  confirmation is \<open>max 0 (previous balance - payment amount)\<close>, a NULL balance counting
  as 0; so it is never negative, also when the payment exceeds the previous balance.
\<close>

theorem confirm_balance_clamped_at_zero:
  assumes "find (\<lambda>q. Some (payment_stripePaymentIntentId q) = pid) (getUserPayments s sub) = Some p"
    and "getUser s sub = Some u"
  shows "\<exists>nb. map_option user_outstandingFines
                (getUser (snd (post_api_payment_confirm True now updated sub pid s)) sub)
                = Some (Some nb)
          \<and> nb = max 0 (set_col (user_outstandingFines u) 0 - payment_amount p)
          \<and> 0 \<le> nb"
  using confirm_user_row [OF assms, of now updated]
  by simp

theorem confirm_balance_clamped_at_zero_witness:
  "find (\<lambda>q. Some (payment_stripePaymentIntentId q) = Some (Some ''pi_1''))
     (getUserPayments library ''alice'') = Some card_payment
   \<and> getUser library ''alice'' = Some alice
   \<and> set_col (user_outstandingFines alice) 0 = 500
   \<and> payment_amount card_payment = 1000
   \<and> map_option user_outstandingFines
        (getUser (snd (post_api_payment_confirm True 100 102 ''alice'' (Some (Some ''pi_1'')) library))
           ''alice'') = Some (Some 0)"
proof -
  have h1: "find (\<lambda>q. Some (payment_stripePaymentIntentId q) = Some (Some ''pi_1''))
     (getUserPayments library ''alice'') = Some card_payment"
    by (simp add: getUserPayments_def order_desc_def library_def card_payment_def)
  have h2: "getUser library ''alice'' = Some alice"
    by (simp add: getUser_def library_def alice_def)
  have a: "payment_amount card_payment = 1000" "set_col (user_outstandingFines alice) 0 = 500"
    by (simp_all add: card_payment_def alice_def set_col_def)
  from confirm_balance_clamped_at_zero [OF h1 h2, of 100 102] h1 h2 a
  show ?thesis by simp
qed

end
